theory Spec2Isabelle
  imports Complex_Main "HOL-Library.AList"
begin

section \<open>Data model\<close>

text \<open>
  The repository keeps a file-based vector store (\<^verbatim>\<open>src/vectorstore.py\<close>) and a
  question-answering pipeline on top of it (\<^verbatim>\<open>src/query.py\<close>).

  Python exceptions are values. These are the classes the modelled code can raise: numpy's
  \<^verbatim>\<open>ValueError\<close> (shape mismatch in \<^verbatim>\<open>np.array\<close>, \<^verbatim>\<open>np.vstack\<close>, \<^verbatim>\<open>np.dot\<close>), numpy's
  \<^verbatim>\<open>AxisError\<close> (\<^verbatim>\<open>norm(..., axis=1)\<close> of a one-dimensional array), and the built-in
  \<^verbatim>\<open>IndexError\<close> and \<^verbatim>\<open>KeyError\<close>. The source defines no exception class of its own.
\<close>

datatype py_error = ValueError | AxisError | IndexError | KeyError

text \<open>
  Metadata values are the ones the indexer writes: strings and integers. A metadata record
  is a Python dict, kept as an association list in insertion order.
\<close>

datatype pyval = PyStr string | PyInt int

type_synonym dict = "(string \<times> pyval) list"

text \<open>
  A numpy array of the kinds the store can hold: one-dimensional, or two-dimensional with
  a column count and its rows. The element type \<open>'f\<close> stands for \<^verbatim>\<open>float32\<close>.
\<close>

datatype 'f ndarray = Array1 "'f list" | Array2 nat "'f list list"

text \<open>The object \<^verbatim>\<open>self\<close>: \<^verbatim>\<open>self.embeddings\<close> (\<^verbatim>\<open>None\<close> or an array) and \<^verbatim>\<open>self.metadata\<close>.\<close>

record 'f VectorStore =
  embeddings :: "'f ndarray option"
  metadata :: "dict list"

text \<open>
  The store directory: \<^verbatim>\<open>embeddings.npy\<close> and \<^verbatim>\<open>metadata.json\<close>, each absent (\<open>None\<close>) or
  holding what \<^verbatim>\<open>np.save\<close> / \<^verbatim>\<open>json.dump\<close> wrote. \<^verbatim>\<open>np.load\<close> and \<^verbatim>\<open>json.load\<close> return the
  written value unchanged.
\<close>

record 'f files =
  embeddings_file :: "'f ndarray option"
  metadata_file :: "dict list option"

text \<open>A store object together with the directory it persists to.\<close>

record 'f state =
  store :: "'f VectorStore"
  files :: "'f files"

section \<open>numpy\<close>

text \<open>
  \<^verbatim>\<open>np.array(embeddings, dtype=np.float32)\<close> on a list of lists: the empty list gives a
  one-dimensional array of shape \<open>(0,)\<close>; rows of one common length \<open>d\<close> give shape
  \<open>(n, d)\<close>; ragged rows raise \<^verbatim>\<open>ValueError\<close>.
\<close>

definition np_array :: "'f list list \<Rightarrow> py_error + 'f ndarray" where
  "np_array vs =
     (case vs of
        [] \<Rightarrow> Inr (Array1 [])
      | v # rest \<Rightarrow>
          if list_all (\<lambda>w. length w = length v) rest then Inr (Array2 (length v) vs)
          else Inl ValueError)"

text \<open>\<^verbatim>\<open>np.atleast_2d\<close>: a one-dimensional array of shape \<open>(N,)\<close> becomes one row, \<open>(1, N)\<close>.\<close>

fun atleast_2d :: "'f ndarray \<Rightarrow> nat \<times> 'f list list" where
  "atleast_2d (Array1 v) = (length v, [v])"
| "atleast_2d (Array2 d rows) = (d, rows)"

text \<open>
  \<^verbatim>\<open>np.vstack([a, b])\<close>: both arrays are made two-dimensional and concatenated along the
  rows; differing column counts raise \<^verbatim>\<open>ValueError\<close>.
\<close>

definition np_vstack :: "'f ndarray \<Rightarrow> 'f ndarray \<Rightarrow> py_error + 'f ndarray" where
  "np_vstack a b =
     (case atleast_2d a of (d1, r1) \<Rightarrow>
      case atleast_2d b of (d2, r2) \<Rightarrow>
        if d1 = d2 then Inr (Array2 d1 (r1 @ r2)) else Inl ValueError)"

text \<open>Number of rows (\<^verbatim>\<open>shape[0]\<close>) and the column count after \<^verbatim>\<open>atleast_2d\<close>.\<close>

fun nrows :: "'f ndarray \<Rightarrow> nat" where
  "nrows (Array1 v) = length v"
| "nrows (Array2 d rows) = length rows"

definition ncols :: "'f ndarray \<Rightarrow> nat" where
  "ncols a = fst (atleast_2d a)"

text \<open>
  The numerical kernels of numpy are parameters of the model: the \<^verbatim>\<open>float32\<close> dot product
  and Euclidean norm, \<^verbatim>\<open>np.argsort\<close> (default kind, whose order among equal keys numpy does
  not specify) and the constant \<^verbatim>\<open>1e-10\<close>. Scalar arithmetic on \<open>'f\<close> is written with the
  usual operators, of which no law is assumed.
\<close>

record 'f numpy =
  np_dot :: "'f list \<Rightarrow> 'f list \<Rightarrow> 'f"
  np_norm :: "'f list \<Rightarrow> 'f"
  np_argsort :: "'f list \<Rightarrow> nat list"
  np_eps :: "'f"

text \<open>Python's slice \<^verbatim>\<open>xs[i:]\<close> for any integer \<open>i\<close>.\<close>

definition slice_from :: "int \<Rightarrow> 'a list \<Rightarrow> 'a list" where
  "slice_from i xs =
     (let n = int (length xs);
          j = (if i < 0 then max (n + i) 0 else min i n)
      in drop (nat j) xs)"

section \<open>VectorStore\<close>

definition VectorStore_load :: "'f files \<Rightarrow> 'f VectorStore \<Rightarrow> 'f VectorStore" where
  "VectorStore_load f s =
     (case embeddings_file f of
        None \<Rightarrow> s
      | Some a \<Rightarrow>
          (case metadata_file f of
             None \<Rightarrow> s
           | Some m \<Rightarrow> s\<lparr>embeddings := Some a, metadata := m\<rparr>))"

text \<open>The constructor. No branch of it raises.\<close>

definition VectorStore_init :: "'f files \<Rightarrow> py_error + 'f VectorStore" where
  "VectorStore_init f = Inr (VectorStore_load f \<lparr>embeddings = None, metadata = []\<rparr>)"

definition VectorStore_save :: "'f VectorStore \<Rightarrow> 'f files \<Rightarrow> 'f files" where
  "VectorStore_save s f =
     \<lparr>embeddings_file = (case embeddings s of None \<Rightarrow> embeddings_file f | Some a \<Rightarrow> Some a),
      metadata_file = Some (metadata s)\<rparr>"

definition VectorStore_clear :: "'f state \<Rightarrow> 'f state" where
  "VectorStore_clear w =
     \<lparr>store = \<lparr>embeddings = None, metadata = []\<rparr>,
      files = \<lparr>embeddings_file = None, metadata_file = None\<rparr>\<rparr>"

text \<open>The loop of \<^verbatim>\<open>add\<close>: \<^verbatim>\<open>{**meta, "document": doc}\<close> for each pair of the zip.\<close>

definition new_metadata :: "string list \<Rightarrow> dict list \<Rightarrow> dict list" where
  "new_metadata documents metadatas =
     map (\<lambda>(doc, meta). AList.update ''document'' (PyStr doc) meta) (zip documents metadatas)"

text \<open>
  \<^verbatim>\<open>add\<close> returns the exception or \<^verbatim>\<open>None\<close>, and the state it leaves behind. An exception
  of \<^verbatim>\<open>np.array\<close> or \<^verbatim>\<open>np.vstack\<close> leaves before any assignment to \<^verbatim>\<open>self\<close>.
\<close>

definition VectorStore_add ::
  "'f list list \<Rightarrow> string list \<Rightarrow> dict list \<Rightarrow> 'f state \<Rightarrow> (py_error + unit) \<times> 'f state" where
  "VectorStore_add embs documents metadatas w =
     (case np_array embs of
        Inl e \<Rightarrow> (Inl e, w)
      | Inr new_embeddings \<Rightarrow>
          (let new_md = new_metadata documents metadatas in
           case embeddings (store w) of
             None \<Rightarrow>
               (let s' = \<lparr>embeddings = Some new_embeddings, metadata = new_md\<rparr>
                in (Inr (), \<lparr>store = s', files = VectorStore_save s' (files w)\<rparr>))
           | Some old \<Rightarrow>
               (case np_vstack old new_embeddings of
                  Inl e \<Rightarrow> (Inl e, w)
                | Inr stacked \<Rightarrow>
                    (let s' = \<lparr>embeddings = Some stacked,
                               metadata = metadata (store w) @ new_md\<rparr>
                     in (Inr (), \<lparr>store = s', files = VectorStore_save s' (files w)\<rparr>)))))"

definition VectorStore_count :: "'f VectorStore \<Rightarrow> nat" where
  "VectorStore_count s = length (metadata s)"

text \<open>The comprehension \<^verbatim>\<open>{k: v for k, v in m.items() if k != "document"}\<close>.\<close>

definition without_document :: "dict \<Rightarrow> dict" where
  "without_document m = filter (\<lambda>kv. fst kv \<noteq> ''document'') m"

definition VectorStore_get_all_metadata :: "'f VectorStore \<Rightarrow> dict list" where
  "VectorStore_get_all_metadata s = map without_document (metadata s)"

record 'f query_result =
  documents :: "pyval list list"
  metadatas :: "dict list list"
  distances :: "'f list list"

definition empty_result :: "'f query_result" where
  "empty_result = \<lparr>documents = [[]], metadatas = [[]], distances = [[]]\<rparr>"

text \<open>\<^verbatim>\<open>np.dot(self.embeddings, query_vec) / (norms * query_norm + 1e-10)\<close>, row by row.\<close>

definition similarities ::
  "('f::{times,plus,inverse}) numpy \<Rightarrow> 'f list list \<Rightarrow> 'f list \<Rightarrow> 'f list" where
  "similarities np rows query_vec =
     (let query_norm = np_norm np query_vec
      in map (\<lambda>row. np_dot np row query_vec / (np_norm np row * query_norm + np_eps np)) rows)"

text \<open>\<^verbatim>\<open>np.argsort(similarities)[-k:][::-1]\<close>.\<close>

definition top_indices :: "'f numpy \<Rightarrow> 'f list \<Rightarrow> int \<Rightarrow> nat list" where
  "top_indices np sims k = rev (slice_from (- k) (np_argsort np sims))"

text \<open>
  \<^verbatim>\<open>[self.metadata[i]["document"] for i in top_indices]\<close>: an index beyond the list raises
  \<^verbatim>\<open>IndexError\<close>, a record without the key raises \<^verbatim>\<open>KeyError\<close>.
\<close>

fun get_documents :: "dict list \<Rightarrow> nat list \<Rightarrow> py_error + pyval list" where
  "get_documents md [] = Inr []"
| "get_documents md (i # rest) =
     (if length md \<le> i then Inl IndexError
      else case map_of (md ! i) ''document'' of
             None \<Rightarrow> Inl KeyError
           | Some v \<Rightarrow>
               (case get_documents md rest of
                  Inl e \<Rightarrow> Inl e
                | Inr vs \<Rightarrow> Inr (v # vs)))"

definition VectorStore_query ::
  "('f::{times,plus,minus,one,inverse}) numpy \<Rightarrow> 'f VectorStore \<Rightarrow> 'f list \<Rightarrow> int
     \<Rightarrow> py_error + 'f query_result" where
  "VectorStore_query np s query_embedding n_results =
     (case embeddings s of
        None \<Rightarrow> Inr empty_result
      | Some E \<Rightarrow>
          if length (metadata s) = 0 then Inr empty_result
          else
            (case E of
               Array1 v \<Rightarrow> Inl AxisError
             | Array2 d rows \<Rightarrow>
                 if length query_embedding \<noteq> d then Inl ValueError
                 else
                   (let sims = similarities np rows query_embedding;
                        k = min n_results (int (length (metadata s)));
                        tops = top_indices np sims k
                    in case get_documents (metadata s) tops of
                         Inl e \<Rightarrow> Inl e
                       | Inr docs \<Rightarrow>
                           Inr \<lparr>documents = [docs],
                                metadatas = [map (\<lambda>i. without_document (metadata s ! i)) tops],
                                distances = [map (\<lambda>i. 1 - sims ! i) tops]\<rparr>)))"

section \<open>The query pipeline\<close>

text \<open>
  \<^verbatim>\<open>src/query.py\<close>. The embedding model and the generation model are parameters; every
  invocation of one of them, and every line printed, is recorded in a trace.
\<close>

datatype event = EmbedQuery string | LLMInvoke string | Print string

record 'f models =
  embed_query :: "string \<Rightarrow> 'f list"
  llm_invoke :: "string \<Rightarrow> string"

record answer =
  answer :: string
  sources :: "dict list"

definition TOP_K_RESULTS :: int where
  "TOP_K_RESULTS = 4"

definition newline :: string where
  "newline = [CHR 0x0A]"

text \<open>Python's \<^verbatim>\<open>str\<close> on the values a record holds, as an f-string applies it.\<close>

fun str_nat :: "nat \<Rightarrow> string" where
  "str_nat n =
     (if n < 10 then [''0123456789'' ! n]
      else str_nat (n div 10) @ [''0123456789'' ! (n mod 10)])"

definition str_int :: "int \<Rightarrow> string" where
  "str_int i = (if i < 0 then ''-'' @ str_nat (nat (- i)) else str_nat (nat i))"

fun py_str :: "pyval \<Rightarrow> string" where
  "py_str (PyStr s) = s"
| "py_str (PyInt i) = str_int i"

text \<open>\<^verbatim>\<open>SYSTEM_PROMPT.format(context=context, question=question)\<close>.\<close>

definition SYSTEM_PROMPT_format :: "string \<Rightarrow> string \<Rightarrow> string" where
  "SYSTEM_PROMPT_format context question =
     ''You are a helpful assistant that answers questions based ONLY on the provided notes.''
     @ newline @ newline
     @ ''Rules:'' @ newline
     @ ''1. Answer ONLY using information from the notes below'' @ newline
     @ ''2. If the answer is not in the notes, say '' @ [CHR 0x22]
     @ ''I don't have information about that in my notes'' @ [CHR 0x22] @ newline
     @ ''3. Be concise and direct'' @ newline
     @ ''4. When relevant, mention which note the information came from'' @ newline
     @ newline
     @ ''Notes:'' @ newline
     @ context @ newline @ newline
     @ ''Question: '' @ question @ newline @ newline
     @ ''Answer:''"

text \<open>\<^verbatim>\<open>sep.join(parts)\<close>.\<close>

fun join :: "string \<Rightarrow> string list \<Rightarrow> string" where
  "join sep [] = []"
| "join sep [x] = x"
| "join sep (x # y # ys) = x @ sep @ join sep (y # ys)"

text \<open>
  The loop over \<^verbatim>\<open>zip(chunks, metadatas)\<close>, with its three accumulators. A record without
  \<^verbatim>\<open>title\<close>, \<^verbatim>\<open>page_id\<close> or \<^verbatim>\<open>url\<close> raises \<^verbatim>\<open>KeyError\<close> where the loop reads the key.
\<close>

fun build_context ::
  "(pyval \<times> dict) list \<Rightarrow> string list \<Rightarrow> dict list \<Rightarrow> pyval set
     \<Rightarrow> py_error + string list \<times> dict list" where
  "build_context [] context_parts srcs seen_pages = Inr (context_parts, srcs)"
| "build_context ((chunk, meta) # rest) context_parts srcs seen_pages =
     (case map_of meta ''title'' of
        None \<Rightarrow> Inl KeyError
      | Some title \<Rightarrow>
          (let context_parts' =
                 context_parts @ [''[From: '' @ py_str title @ '']'' @ newline @ py_str chunk]
           in case map_of meta ''page_id'' of
                None \<Rightarrow> Inl KeyError
              | Some page_id \<Rightarrow>
                  if page_id \<in> seen_pages
                  then build_context rest context_parts' srcs seen_pages
                  else
                    (case map_of meta ''url'' of
                       None \<Rightarrow> Inl KeyError
                     | Some url \<Rightarrow>
                         build_context rest context_parts'
                           (srcs @ [[(''title'', title), (''url'', url)]])
                           (insert page_id seen_pages))))"

text \<open>
  \<^verbatim>\<open>query(question, verbose)\<close>. The argument \<open>db\<close> is the content of \<^verbatim>\<open>DB_DIR\<close>. The result
  is the returned dict or the exception, and the trace of model calls and prints.
\<close>

definition query ::
  "('f::{times,plus,minus,one,inverse}) numpy \<Rightarrow> 'f models \<Rightarrow> 'f files \<Rightarrow> string \<Rightarrow> bool
     \<Rightarrow> (py_error + answer) \<times> event list" where
  "query np models db question verbose =
     (case VectorStore_init db of
        Inl e \<Rightarrow> (Inl e, [])
      | Inr st \<Rightarrow>
          if VectorStore_count st = 0
          then (Inr \<lparr>answer = ''No notes indexed yet. Run 'python cli.py index' first.'',
                     sources = []\<rparr>, [])
          else
            (let question_embedding = embed_query models question;
                 called = [EmbedQuery question]
             in case VectorStore_query np st question_embedding TOP_K_RESULTS of
                  Inl e \<Rightarrow> (Inl e, called)
                | Inr results \<Rightarrow>
                    (case documents results of
                       [] \<Rightarrow> (Inl IndexError, called)
                     | chunks # _ \<Rightarrow>
                         if chunks = []
                         then (Inr \<lparr>answer = ''No relevant notes found.'', sources = []\<rparr>, called)
                         else
                           (case metadatas results of
                              [] \<Rightarrow> (Inl IndexError, called)
                            | metas # _ \<Rightarrow>
                                (case build_context (zip chunks metas) [] [] {} of
                                   Inl e \<Rightarrow> (Inl e, called)
                                 | Inr (context_parts, srcs) \<Rightarrow>
                                     (let context =
                                            join (newline @ newline @ ''---'' @ newline @ newline)
                                              context_parts;
                                          printed =
                                            (if verbose
                                             then [Print (''Found '' @ str_nat (length chunks)
                                                     @ '' relevant chunks from ''
                                                     @ str_nat (length srcs) @ '' pages'' @ newline)]
                                             else []);
                                          prompt = SYSTEM_PROMPT_format context question
                                      in (Inr \<lparr>answer = llm_invoke models prompt, sources = srcs\<rparr>,
                                          called @ printed @ [LLMInvoke prompt])))))))"

section \<open>Specification of argsort, and exact arithmetic\<close>

text \<open>
  What numpy promises of \<^verbatim>\<open>np.argsort\<close>: a permutation of the indices that lists the
  values in non-decreasing order. A stable sort moreover lists equal values by increasing
  index. The values are compared by a linear order; a NaN among them is not modelled.
\<close>

definition is_argsort :: "('f::linorder) list \<Rightarrow> nat list \<Rightarrow> bool" where
  "is_argsort xs p \<longleftrightarrow>
     distinct p \<and> set p = {0..<length xs} \<and> sorted (map (\<lambda>i. xs ! i) p)"

definition is_stable :: "'f list \<Rightarrow> nat list \<Rightarrow> bool" where
  "is_stable xs p \<longleftrightarrow>
     list_all (\<lambda>b. list_all (\<lambda>a. xs ! (p ! a) \<noteq> xs ! (p ! b) \<or> p ! a < p ! b) [0..<b])
       [0..<length p]"

text \<open>A stable argsort: insertion sort of the indexed values by value.\<close>

definition stable_argsort :: "('f::linorder) list \<Rightarrow> nat list" where
  "stable_argsort xs = map snd (sort_key fst (zip xs [0..<length xs]))"

text \<open>
  An idealised numpy over the real numbers, to run the model on concrete inputs: the
  kernels without rounding, with the stable argsort. It is not \<^verbatim>\<open>float32\<close>: it has no
  rounding, overflow or NaN, so two values that differ here may be equal in the program.
  It is used only at inputs where the values compared are equal or far apart, and for
  what does not depend on the arithmetic at all (how many results, which exception).
\<close>

definition exact_numpy :: "real numpy" where
  "exact_numpy =
     \<lparr>np_dot = (\<lambda>v w. sum_list (map2 (*) v w)),
      np_norm = (\<lambda>v. sqrt (sum_list (map (\<lambda>x. x * x) v))),
      np_argsort = stable_argsort,
      np_eps = 1 / 10 ^ 10\<rparr>"

section \<open>States of the store\<close>

text \<open>
  Every state the methods produce keeps the metadata empty while there is no array:
  the constructor, \<^verbatim>\<open>clear\<close> and \<^verbatim>\<open>add\<close> assign both fields together.
\<close>

definition store_inv :: "'f VectorStore \<Rightarrow> bool" where
  "store_inv s = (case embeddings s of None \<Rightarrow> metadata s = [] | Some a \<Rightarrow> True)"

text \<open>The number of rows of the stored array, none when there is no array.\<close>

definition store_rows :: "'f VectorStore \<Rightarrow> nat" where
  "store_rows s = (case embeddings s of None \<Rightarrow> 0 | Some a \<Rightarrow> nrows a)"

text \<open>
  A store takes vectors of length \<open>d\<close> as they are when it has no array yet or a
  two-dimensional array of \<open>d\<close> columns.
\<close>

definition accepts_width :: "'f VectorStore \<Rightarrow> nat \<Rightarrow> bool" where
  "accepts_width s d =
     (case embeddings s of
        None \<Rightarrow> True
      | Some (Array1 v) \<Rightarrow> False
      | Some (Array2 d' rows) \<Rightarrow> d' = d)"

text \<open>A sequence of \<^verbatim>\<open>add\<close> calls on one store object, as the indexer makes them.\<close>

fun add_all ::
  "('f list list \<times> string list \<times> dict list) list \<Rightarrow> 'f state
     \<Rightarrow> (py_error + unit) \<times> 'f state" where
  "add_all [] w = (Inr (), w)"
| "add_all ((embs, docs, metas) # calls) w =
     (case VectorStore_add embs docs metas w of
        (Inl e, w') \<Rightarrow> (Inl e, w')
      | (Inr u, w') \<Rightarrow> add_all calls w')"

text \<open>Concrete states: an empty directory, a store of one record, a store of two records
  with the same vector.\<close>

definition empty_state :: "real state" where
  "empty_state =
     \<lparr>store = \<lparr>embeddings = None, metadata = []\<rparr>,
      files = \<lparr>embeddings_file = None, metadata_file = None\<rparr>\<rparr>"

definition cat_store :: "real VectorStore" where
  "cat_store =
     \<lparr>embeddings = Some (Array2 2 [[1, 0]]),
      metadata = [[(''page_id'', PyStr ''A''), (''document'', PyStr ''the cat sat'')]]\<rparr>"

definition cat_state :: "real state" where
  "cat_state =
     \<lparr>store = cat_store,
      files = \<lparr>embeddings_file = embeddings cat_store,
               metadata_file = Some (metadata cat_store)\<rparr>\<rparr>"

definition twin_store :: "real VectorStore" where
  "twin_store =
     \<lparr>embeddings = Some (Array2 2 [[1, 0], [1, 0]]),
      metadata = [[(''document'', PyStr ''first'')], [(''document'', PyStr ''second'')]]\<rparr>"

text \<open>A directory as the indexer leaves it: two chunks of one page.\<close>

definition note_files :: "real files" where
  "note_files =
     \<lparr>embeddings_file = Some (Array2 2 [[1, 0], [0, 1]]),
      metadata_file =
        Some [[(''page_id'', PyStr ''p1''), (''title'', PyStr ''Cats''), (''url'', PyStr ''u1''),
               (''last_edited'', PyStr ''2024''), (''chunk_index'', PyInt 0),
               (''document'', PyStr ''the cat sat'')],
              [(''page_id'', PyStr ''p1''), (''title'', PyStr ''Cats''), (''url'', PyStr ''u1''),
               (''last_edited'', PyStr ''2024''), (''chunk_index'', PyInt 1),
               (''document'', PyStr ''on the mat'')]]\<rparr>"

definition test_models :: "real models" where
  "test_models = \<lparr>embed_query = (\<lambda>q. [1, 0]), llm_invoke = (\<lambda>p. ''ok'')\<rparr>"

section \<open>Basic facts\<close>

lemmas query_eval =
  VectorStore_query_def similarities_def top_indices_def slice_from_def
  exact_numpy_def stable_argsort_def without_document_def Let_def

lemma upt_2: "[0..<2] = [0, 1]"
  by (simp add: upt_rec)

lemma np_array_uniform:
  "embs \<noteq> [] \<Longrightarrow> list_all (\<lambda>v. length v = d) embs \<Longrightarrow> np_array embs = Inr (Array2 d embs)"
  by (cases embs) (auto simp: np_array_def list_all_iff)

lemma length_new_metadata:
  "length (new_metadata docs metas) = min (length docs) (length metas)"
  by (simp add: new_metadata_def)

lemma init_store_inv: "VectorStore_init f = Inr s \<Longrightarrow> store_inv s"
  by (auto simp: VectorStore_init_def VectorStore_load_def store_inv_def split: option.splits)

lemma add_ok_persisted:
  assumes "VectorStore_add embs docs metas w = (Inr u, w')"
  shows "VectorStore_init (files w') = Inr (store w')"
  using assms
  by (auto simp: VectorStore_add_def VectorStore_init_def VectorStore_load_def
      VectorStore_save_def Let_def split: sum.splits option.splits)

lemma add_ok_metadata:
  assumes "VectorStore_add embs docs metas w = (Inr u, w')" and "store_inv (store w)"
  shows "metadata (store w') = metadata (store w) @ new_metadata docs metas"
  using assms
  by (auto simp: VectorStore_add_def store_inv_def Let_def split: sum.splits option.splits)

text \<open>The methods keep the invariant of the store.\<close>

lemma add_preserves_store_inv:
  "store_inv (store w) \<Longrightarrow> store_inv (store (snd (VectorStore_add embs docs metas w)))"
  by (auto simp: VectorStore_add_def store_inv_def Let_def split: sum.splits option.splits)

lemma clear_store_inv: "store_inv (store (VectorStore_clear w))"
  by (simp add: VectorStore_clear_def store_inv_def)

text \<open>The one-record store is what \<^verbatim>\<open>add\<close> makes of an empty directory.\<close>

lemma cat_state_by_add:
  "VectorStore_add [[1, 0]] [''the cat sat''] [[(''page_id'', PyStr ''A'')]] empty_state
     = (Inr (), cat_state)"
  by (simp add: VectorStore_add_def np_array_def empty_state_def cat_state_def cat_store_def
      new_metadata_def VectorStore_save_def Let_def eval_nat_numeral)

section \<open>Loading\<close>

text \<open>
  C3 (as the specification states it): constructing a store over a directory that holds
  exactly one of the two artifacts fails with a corrupted-store error. The code does not:
  over a directory holding only \<^verbatim>\<open>embeddings.npy\<close> the constructor returns normally, with an
  empty store.
\<close>

theorem load_only_embeddings_file_no_error:
  "VectorStore_init \<lparr>embeddings_file = Some (Array2 2 [[1, 0 :: real]]), metadata_file = None\<rparr>
     = Inr \<lparr>embeddings = None, metadata = []\<rparr>"
  by (simp add: VectorStore_init_def VectorStore_load_def)

text \<open>
  C3 (amended): when exactly one of the two artifacts exists, the constructor raises
  nothing and initialises an empty store, of count zero; the lone artifact is ignored.
\<close>

theorem load_one_artifact_initialises_empty:
  assumes "(embeddings_file f = None) \<noteq> (metadata_file f = None)"
  shows "VectorStore_init f = Inr \<lparr>embeddings = None, metadata = []\<rparr>
         \<and> VectorStore_count (VectorStore_load f \<lparr>embeddings = None, metadata = []\<rparr>) = 0"
  using assms
  by (auto simp: VectorStore_init_def VectorStore_load_def VectorStore_count_def
      split: option.splits)

theorem load_one_artifact_initialises_empty_witness:
  "(embeddings_file \<lparr>embeddings_file = None :: real ndarray option,
        metadata_file = Some [[(''document'', PyStr ''a'')]]\<rparr> = None)
     \<noteq> (metadata_file \<lparr>embeddings_file = None :: real ndarray option,
        metadata_file = Some [[(''document'', PyStr ''a'')]]\<rparr> = None)
   \<and> VectorStore_init \<lparr>embeddings_file = None :: real ndarray option,
        metadata_file = Some [[(''document'', PyStr ''a'')]]\<rparr>
      = Inr \<lparr>embeddings = None, metadata = []\<rparr>"
  using load_one_artifact_initialises_empty
    [of "\<lparr>embeddings_file = None :: real ndarray option,
          metadata_file = Some [[(''document'', PyStr ''a'')]]\<rparr>"]
  by simp

section \<open>Adding\<close>

text \<open>
  C2 (as the specification states it): an \<^verbatim>\<open>add\<close> with a vector of the wrong length raises
  \<^verbatim>\<open>DimensionMismatchError\<close>. The source defines no such class and makes no check of its own:
  the exception is the \<^verbatim>\<open>ValueError\<close> that \<^verbatim>\<open>np.vstack\<close> raises, here for a vector of three
  numbers added to a store of two columns.
\<close>

theorem add_wrong_length_raises_ValueError:
  "VectorStore_add [[1, 2, 3]] [''x''] [[(''page_id'', PyStr ''B'')]] cat_state
     = (Inl ValueError, cat_state)"
  by (simp add: VectorStore_add_def np_array_def np_vstack_def cat_state_def cat_store_def)

text \<open>
  C2 (amended): for every store that holds an array and every \<^verbatim>\<open>add\<close> in which some added
  vector's length differs from the array's column count, \<^verbatim>\<open>add\<close> raises numpy's
  \<^verbatim>\<open>ValueError\<close> and leaves everything as it was: the object's array and metadata (hence
  the count) and both files.
\<close>

theorem add_dimension_mismatch_unchanged:
  assumes "embeddings (store w) = Some a" and "v \<in> set embs" and "length v \<noteq> ncols a"
  shows "VectorStore_add embs docs metas w = (Inl ValueError, w)"
proof (cases embs)
  case Nil
  with assms(2) show ?thesis by simp
next
  case (Cons v0 rest)
  show ?thesis
  proof (cases "list_all (\<lambda>u. length u = length v0) rest")
    case False
    then show ?thesis
      using Cons by (simp add: VectorStore_add_def np_array_def)
  next
    case True
    then have "length v = length v0"
      using assms(2) Cons by (auto simp: list_all_iff)
    then have "length v0 \<noteq> ncols a"
      using assms(3) by simp
    then show ?thesis
      using Cons True assms(1)
      by (auto simp: VectorStore_add_def np_array_def np_vstack_def ncols_def
          split: prod.splits)
  qed
qed

theorem add_dimension_mismatch_unchanged_witness:
  "embeddings (store cat_state) = Some (Array2 2 [[1, 0]])
   \<and> [5] \<in> set [[1, 0], [5 :: real]]
   \<and> length [5 :: real] \<noteq> ncols (Array2 2 [[1, 0 :: real]])
   \<and> VectorStore_add [[1, 0], [5]] [''x'', ''y''] [[], []] cat_state = (Inl ValueError, cat_state)"
  using add_dimension_mismatch_unchanged
    [of cat_state "Array2 2 [[1, 0]]" "[5]" "[[1, 0], [5]]" "[''x'', ''y'']" "[[], []]"]
  by (simp add: cat_state_def cat_store_def ncols_def)

text \<open>
  C9 (as the claim states it): with every vector matching the store's dimensionality,
  \<^verbatim>\<open>add\<close> raises nothing whatever the three lengths. It does raise when the vector list is
  empty and the store holds an array with columns: \<^verbatim>\<open>np.array([])\<close> has shape \<open>(0,)\<close>,
  which \<^verbatim>\<open>np.vstack\<close> treats as one row without columns.
\<close>

theorem add_no_vectors_raises_ValueError:
  "VectorStore_add [] [''x''] [[(''page_id'', PyStr ''B'')]] cat_state
     = (Inl ValueError, cat_state)"
  by (simp add: VectorStore_add_def np_array_def np_vstack_def cat_state_def cat_store_def)

text \<open>
  C9 (amended): if the vectors all have length \<open>d\<close>, the store has no array yet or a
  two-dimensional array of \<open>d\<close> columns, and the vector list is non-empty or the store has
  no array yet, then \<^verbatim>\<open>add\<close> raises nothing whatever the lengths of the documents and
  metadatas: it appends one row per vector but only
  \<open>min (len documents) (len metadatas)\<close> metadata records, and persists both, so the saved
  array and metadata sequence may differ in length.
\<close>

theorem add_unequal_lengths_no_error:
  assumes "list_all (\<lambda>v. length v = d) embs"
    and "accepts_width (store w) d"
    and "store_inv (store w)"
    and "embs \<noteq> [] \<or> embeddings (store w) = None"
  shows "fst (VectorStore_add embs docs metas w) = Inr ()
    \<and> store_rows (store (snd (VectorStore_add embs docs metas w)))
        = store_rows (store w) + length embs
    \<and> VectorStore_count (store (snd (VectorStore_add embs docs metas w)))
        = VectorStore_count (store w) + min (length docs) (length metas)
    \<and> embeddings_file (files (snd (VectorStore_add embs docs metas w)))
        = embeddings (store (snd (VectorStore_add embs docs metas w)))
    \<and> metadata_file (files (snd (VectorStore_add embs docs metas w)))
        = Some (metadata (store (snd (VectorStore_add embs docs metas w))))"
proof (cases "embeddings (store w)")
  case None
  have "\<exists>a. np_array embs = Inr a \<and> nrows a = length embs"
  proof (cases "embs = []")
    case True
    then show ?thesis by (simp add: np_array_def)
  next
    case False
    then show ?thesis using np_array_uniform[OF False assms(1)] by simp
  qed
  then obtain a where "np_array embs = Inr a" and "nrows a = length embs"
    by blast
  then show ?thesis
    using None assms(3)
    by (simp add: VectorStore_add_def store_inv_def store_rows_def VectorStore_count_def
        VectorStore_save_def length_new_metadata Let_def)
next
  case (Some a)
  then have ne: "embs \<noteq> []"
    using assms(4) by simp
  obtain rows where a: "a = Array2 d rows"
    using assms(2) Some by (cases a) (auto simp: accepts_width_def)
  show ?thesis
    using np_array_uniform[OF ne assms(1)] Some a
    by (simp add: VectorStore_add_def store_rows_def VectorStore_count_def
        VectorStore_save_def length_new_metadata Let_def np_vstack_def)
qed

theorem add_unequal_lengths_no_error_witness:
  "list_all (\<lambda>v. length v = 2) [[0, 1], [1, 1 :: real]]
   \<and> accepts_width (store cat_state) 2
   \<and> store_inv (store cat_state)
   \<and> VectorStore_add [[0, 1], [1, 1]] [''x''] [] cat_state
      = (Inr (),
         \<lparr>store = \<lparr>embeddings = Some (Array2 2 [[1, 0], [0, 1], [1, 1]]),
                   metadata = metadata cat_store\<rparr>,
          files = \<lparr>embeddings_file = Some (Array2 2 [[1, 0], [0, 1], [1, 1]]),
                   metadata_file = Some (metadata cat_store)\<rparr>\<rparr>)
   \<and> store_rows (store (snd (VectorStore_add [[0, 1], [1, 1]] [''x''] [] cat_state))) = 3
   \<and> VectorStore_count (store (snd (VectorStore_add [[0, 1], [1, 1]] [''x''] [] cat_state))) = 1"
  using add_unequal_lengths_no_error [of 2 "[[0, 1], [1, 1]]" cat_state "[''x'']" "[]"]
  by (simp add: accepts_width_def store_inv_def cat_state_def cat_store_def
      VectorStore_add_def np_array_def np_vstack_def new_metadata_def VectorStore_save_def
      store_rows_def VectorStore_count_def Let_def)

section \<open>Round trip\<close>

text \<open>
  C6: after any sequence of successful \<^verbatim>\<open>add\<close> calls on a store constructed over a
  directory, constructing a new store over the same directory gives the same collection
  as the one in memory: the same array (equal entry by entry, so within any tolerance),
  the same metadata records with their chunk text, in the same order, hence the same
  count. The records are those the store started with, followed by the added ones call
  by call.
\<close>

theorem add_then_reload_identical:
  assumes "VectorStore_init f0 = Inr s0"
    and "add_all calls \<lparr>store = s0, files = f0\<rparr> = (Inr (), w')"
  shows "VectorStore_init (files w') = Inr (store w')
    \<and> metadata (store w')
        = metadata s0 @ concat (map (\<lambda>(embs, docs, metas). new_metadata docs metas) calls)"
proof -
  have "VectorStore_init (files w) = Inr (store w) \<Longrightarrow> add_all calls w = (Inr (), w') \<Longrightarrow>
        VectorStore_init (files w') = Inr (store w') \<and>
        metadata (store w')
          = metadata (store w)
            @ concat (map (\<lambda>(embs, docs, metas). new_metadata docs metas) calls)" for w
  proof (induction calls arbitrary: w)
    case Nil
    then show ?case by simp
  next
    case (Cons c calls)
    obtain embs docs metas where c: "c = (embs, docs, metas)"
      by (cases c) auto
    from Cons.prems(2) c obtain w1 where
      step: "VectorStore_add embs docs metas w = (Inr (), w1)"
      and rest: "add_all calls w1 = (Inr (), w')"
      by (auto split: prod.splits sum.splits)
    from Cons.IH[OF add_ok_persisted[OF step] rest]
      add_ok_metadata[OF step init_store_inv[OF Cons.prems(1)]] c
    show ?case by simp
  qed
  from this[of "\<lparr>store = s0, files = f0\<rparr>"] assms show ?thesis
    by simp
qed

theorem add_then_reload_identical_witness:
  "VectorStore_init (files empty_state) = Inr (store empty_state)
   \<and> add_all [([[1, 0]], [''the cat sat''], [[(''page_id'', PyStr ''A'')]]),
              ([[0, 1], [1, 1]], [''dog'', ''bird''],
               [[(''page_id'', PyStr ''B'')], [(''page_id'', PyStr ''B'')]])]
        \<lparr>store = store empty_state, files = files empty_state\<rparr>
      = (Inr (),
         \<lparr>store = \<lparr>embeddings = Some (Array2 2 [[1, 0], [0, 1], [1, 1]]),
                   metadata = [[(''page_id'', PyStr ''A''), (''document'', PyStr ''the cat sat'')],
                               [(''page_id'', PyStr ''B''), (''document'', PyStr ''dog'')],
                               [(''page_id'', PyStr ''B''), (''document'', PyStr ''bird'')]]\<rparr>,
          files = \<lparr>embeddings_file = Some (Array2 2 [[1, 0], [0, 1], [1, 1]]),
                   metadata_file =
                     Some [[(''page_id'', PyStr ''A''), (''document'', PyStr ''the cat sat'')],
                           [(''page_id'', PyStr ''B''), (''document'', PyStr ''dog'')],
                           [(''page_id'', PyStr ''B''), (''document'', PyStr ''bird'')]]\<rparr>\<rparr>)
   \<and> VectorStore_init
        \<lparr>embeddings_file = Some (Array2 2 [[1, 0], [0, 1], [1, 1 :: real]]),
         metadata_file =
           Some [[(''page_id'', PyStr ''A''), (''document'', PyStr ''the cat sat'')],
                 [(''page_id'', PyStr ''B''), (''document'', PyStr ''dog'')],
                 [(''page_id'', PyStr ''B''), (''document'', PyStr ''bird'')]]\<rparr>
      = Inr \<lparr>embeddings = Some (Array2 2 [[1, 0], [0, 1], [1, 1]]),
             metadata = [[(''page_id'', PyStr ''A''), (''document'', PyStr ''the cat sat'')],
                         [(''page_id'', PyStr ''B''), (''document'', PyStr ''dog'')],
                         [(''page_id'', PyStr ''B''), (''document'', PyStr ''bird'')]]\<rparr>"
proof -
  have init: "VectorStore_init (files empty_state) = Inr (store empty_state)"
    by (simp add: VectorStore_init_def VectorStore_load_def empty_state_def)
  have run: "add_all [([[1, 0]], [''the cat sat''], [[(''page_id'', PyStr ''A'')]]),
              ([[0, 1], [1, 1]], [''dog'', ''bird''],
               [[(''page_id'', PyStr ''B'')], [(''page_id'', PyStr ''B'')]])]
        \<lparr>store = store empty_state, files = files empty_state\<rparr>
      = (Inr (),
         \<lparr>store = \<lparr>embeddings = Some (Array2 2 [[1, 0], [0, 1], [1, 1]]),
                   metadata = [[(''page_id'', PyStr ''A''), (''document'', PyStr ''the cat sat'')],
                               [(''page_id'', PyStr ''B''), (''document'', PyStr ''dog'')],
                               [(''page_id'', PyStr ''B''), (''document'', PyStr ''bird'')]]\<rparr>,
          files = \<lparr>embeddings_file = Some (Array2 2 [[1, 0], [0, 1], [1, 1]]),
                   metadata_file =
                     Some [[(''page_id'', PyStr ''A''), (''document'', PyStr ''the cat sat'')],
                           [(''page_id'', PyStr ''B''), (''document'', PyStr ''dog'')],
                           [(''page_id'', PyStr ''B''), (''document'', PyStr ''bird'')]]\<rparr>\<rparr>)"
    by (simp add: VectorStore_add_def np_array_def np_vstack_def new_metadata_def
        VectorStore_save_def empty_state_def Let_def eval_nat_numeral)
  from add_then_reload_identical [OF init run, THEN conjunct1]
  have reload: "VectorStore_init
        \<lparr>embeddings_file = Some (Array2 2 [[1, 0], [0, 1], [1, 1 :: real]]),
         metadata_file =
           Some [[(''page_id'', PyStr ''A''), (''document'', PyStr ''the cat sat'')],
                 [(''page_id'', PyStr ''B''), (''document'', PyStr ''dog'')],
                 [(''page_id'', PyStr ''B''), (''document'', PyStr ''bird'')]]\<rparr>
      = Inr \<lparr>embeddings = Some (Array2 2 [[1, 0], [0, 1], [1, 1]]),
             metadata = [[(''page_id'', PyStr ''A''), (''document'', PyStr ''the cat sat'')],
                         [(''page_id'', PyStr ''B''), (''document'', PyStr ''dog'')],
                         [(''page_id'', PyStr ''B''), (''document'', PyStr ''bird'')]]\<rparr>"
    by simp
  from init run reload show ?thesis
    by (intro conjI)
qed

section \<open>Querying an empty store\<close>

text \<open>
  C5: for every query vector and every \<open>k\<close>, \<^verbatim>\<open>query\<close> on a store whose count is zero
  returns the empty result (no documents, no metadatas, no distances) and raises nothing.
\<close>

theorem query_empty_store:
  assumes "VectorStore_count s = 0"
  shows "VectorStore_query np s q k
           = Inr \<lparr>documents = [[]], metadatas = [[]], distances = [[]]\<rparr>"
  using assms
  by (simp add: VectorStore_count_def VectorStore_query_def empty_result_def
      split: option.splits)

theorem query_empty_store_witness:
  "VectorStore_count \<lparr>embeddings = Some (Array1 ([] :: real list)), metadata = []\<rparr> = 0
   \<and> VectorStore_query exact_numpy \<lparr>embeddings = Some (Array1 []), metadata = []\<rparr> [1, 0] 4
      = Inr \<lparr>documents = [[]], metadatas = [[]], distances = [[]]\<rparr>"
  using query_empty_store
    [of "\<lparr>embeddings = Some (Array1 ([] :: real list)), metadata = []\<rparr>" exact_numpy "[1, 0]" 4]
  by (simp add: VectorStore_count_def)

text \<open>
  C7: asking any question while the store is empty returns exactly the answer
  \<^verbatim>\<open>No notes indexed yet. Run 'python cli.py index' first.\<close> with an empty source list, and
  the trace is empty: neither the embedding model nor the generation model is invoked.
\<close>

theorem query_pipeline_empty_store:
  assumes "VectorStore_init db = Inr st" and "VectorStore_count st = 0"
  shows "query np models db question verbose
           = (Inr \<lparr>answer = ''No notes indexed yet. Run 'python cli.py index' first.'',
                   sources = []\<rparr>, [])"
  using assms by (simp add: query_def)

theorem query_pipeline_empty_store_witness:
  "VectorStore_init (files empty_state) = Inr (store empty_state)
   \<and> VectorStore_count (store empty_state) = 0
   \<and> query exact_numpy test_models (files empty_state) ''what did the cat do?'' True
      = (Inr \<lparr>answer = ''No notes indexed yet. Run 'python cli.py index' first.'',
              sources = []\<rparr>, [])"
proof -
  have init: "VectorStore_init (files empty_state) = Inr (store empty_state)"
    by (simp add: VectorStore_init_def VectorStore_load_def empty_state_def)
  have cnt: "VectorStore_count (store empty_state) = 0"
    by (simp add: VectorStore_count_def empty_state_def)
  show ?thesis
    using query_pipeline_empty_store [OF init cnt] init cnt by simp
qed

text \<open>
  Over a directory that holds notes the pipeline does call both models, once each, and
  lists the page of the two chunks once.
\<close>

lemma query_pipeline_calls_models:
  "query exact_numpy test_models note_files ''where is the cat?'' False
     = (Inr \<lparr>answer = ''ok'', sources = [[(''title'', PyStr ''Cats''), (''url'', PyStr ''u1'')]]\<rparr>,
        [EmbedQuery ''where is the cat?'',
         LLMInvoke (SYSTEM_PROMPT_format
           (''[From: Cats]'' @ newline @ ''the cat sat'' @ newline @ newline @ ''---'' @ newline
              @ newline @ ''[From: Cats]'' @ newline @ ''on the mat'')
           ''where is the cat?'')])"
  by (simp add: query_def VectorStore_init_def VectorStore_load_def note_files_def
      VectorStore_count_def test_models_def TOP_K_RESULTS_def query_eval upt_2)

section \<open>Selecting the top results\<close>

lemma slice_from_is_drop: "\<exists>m. slice_from i xs = drop m xs"
  by (auto simp: slice_from_def Let_def)

lemma slice_from_zero: "slice_from 0 xs = xs"
  by (simp add: slice_from_def)

lemma slice_from_last: "1 \<le> k \<Longrightarrow> slice_from (- k) xs = drop (length xs - nat k) xs"
  by (auto simp: slice_from_def Let_def max_def intro!: arg_cong2[where f = drop])

lemma top_indices_zero: "top_indices np sims 0 = rev (np_argsort np sims)"
  by (simp add: top_indices_def slice_from_zero)

lemma length_top_indices:
  "1 \<le> k \<Longrightarrow> length (top_indices np sims k) = min (nat k) (length (np_argsort np sims))"
  by (auto simp: top_indices_def slice_from_last)

lemma is_argsort_length: "is_argsort xs p \<Longrightarrow> length p = length xs"
  using distinct_card[of p] by (simp add: is_argsort_def)

lemma top_indices_sorted:
  assumes "is_argsort sims (np_argsort np sims)"
  shows "sorted_wrt (\<lambda>i j. sims ! j \<le> sims ! i) (top_indices np sims k)"
proof -
  obtain m where m: "slice_from (- k) (np_argsort np sims) = drop m (np_argsort np sims)"
    using slice_from_is_drop by blast
  have "sorted_wrt (\<lambda>i j. sims ! i \<le> sims ! j) (np_argsort np sims)"
    using assms by (simp add: is_argsort_def sorted_map)
  then have "sorted_wrt (\<lambda>i j. sims ! i \<le> sims ! j) (drop m (np_argsort np sims))"
    by (rule sorted_wrt_drop)
  then show ?thesis
    by (simp add: top_indices_def m sorted_wrt_rev)
qed

lemma top_indices_ties:
  assumes "is_stable sims (np_argsort np sims)"
    and "a < b" and "b < length (top_indices np sims k)"
    and "sims ! (top_indices np sims k ! a) = sims ! (top_indices np sims k ! b)"
  shows "top_indices np sims k ! b < top_indices np sims k ! a"
proof -
  let ?p = "np_argsort np sims"
  obtain m where m: "slice_from (- k) ?p = drop m ?p"
    using slice_from_is_drop by blast
  have rv: "top_indices np sims k = rev (drop m ?p)"
    by (simp add: top_indices_def m)
  let ?L = "length (drop m ?p)"
  have b: "b < ?L" and a: "a < ?L"
    using assms(2,3) rv by auto
  have ta: "top_indices np sims k ! a = ?p ! (m + (?L - Suc a))"
    using a by (simp add: rv rev_nth)
  have tb: "top_indices np sims k ! b = ?p ! (m + (?L - Suc b))"
    using b by (simp add: rv rev_nth)
  have lt: "m + (?L - Suc b) < m + (?L - Suc a)" and len: "m + (?L - Suc a) < length ?p"
    using a b assms(2) by auto
  from assms(1) lt len
  have "sims ! (?p ! (m + (?L - Suc b))) \<noteq> sims ! (?p ! (m + (?L - Suc a)))
        \<or> ?p ! (m + (?L - Suc b)) < ?p ! (m + (?L - Suc a))"
    by (auto simp: is_stable_def list_all_iff)
  with assms(4) ta tb show ?thesis
    by auto
qed

lemma get_documents_ok:
  "get_documents md idx = Inr docs \<Longrightarrow>
     list_all (\<lambda>i. i < length md) idx
     \<and> map Some docs = map (\<lambda>i. map_of (md ! i) ''document'') idx"
  by (induction idx arbitrary: docs) (auto split: if_splits option.splits sum.splits)

lemma get_documents_total:
  "list_all (\<lambda>i. i < length md) idx \<Longrightarrow> list_all (\<lambda>m. map_of m ''document'' \<noteq> None) md \<Longrightarrow>
     \<exists>docs. get_documents md idx = Inr docs"
  by (induction idx) (auto simp: list_all_iff split: option.splits)

text \<open>What a successful query on a non-empty store returns, in terms of the selected indices.\<close>

lemma query_result:
  assumes "embeddings s = Some (Array2 d rows)" and "metadata s \<noteq> []"
    and "VectorStore_query np s q k = Inr r"
  shows "map (map Some) (documents r)
           = [map (\<lambda>i. map_of (metadata s ! i) ''document'')
                (top_indices np (similarities np rows q) (min k (int (length (metadata s)))))]
       \<and> metadatas r
           = [map (\<lambda>i. without_document (metadata s ! i))
                (top_indices np (similarities np rows q) (min k (int (length (metadata s)))))]
       \<and> distances r
           = [map (\<lambda>i. 1 - similarities np rows q ! i)
                (top_indices np (similarities np rows q) (min k (int (length (metadata s)))))]
       \<and> length q = d"
  using assms
  by (auto simp: VectorStore_query_def Let_def dest: get_documents_ok
      split: if_splits sum.splits)

text \<open>
  For \<open>k \<ge> 1\<close> a query that returns gives at most \<open>min k (count)\<close> results, ordered by
  non-increasing similarity.
\<close>

lemma query_count_bound:
  assumes "1 \<le> k" and "VectorStore_query np s q k = Inr r"
  shows "list_all (\<lambda>docs. length docs \<le> min (nat k) (VectorStore_count s)) (documents r)"
proof (cases "embeddings s = None \<or> metadata s = []")
  case True
  then show ?thesis
    using assms(2)
    by (auto simp: VectorStore_query_def empty_result_def split: option.splits)
next
  case False
  then obtain E where E: "embeddings s = Some E" and ne: "metadata s \<noteq> []"
    by auto
  from assms(2) E ne obtain d rows where A: "E = Array2 d rows"
    by (cases E) (auto simp: VectorStore_query_def)
  let ?k = "min k (int (length (metadata s)))"
  let ?top = "top_indices np (similarities np rows q) ?k"
  from ne assms(1) have k1: "1 \<le> ?k"
    by (cases "metadata s") auto
  from query_result[OF E[unfolded A] ne assms(2)]
  have "map (map Some) (documents r) = [map (\<lambda>i. map_of (metadata s ! i) ''document'') ?top]"
    by simp
  then obtain docs where docs: "documents r = [docs]" and len: "length docs = length ?top"
    by (cases "documents r") (auto dest: map_eq_imp_length_eq)
  have "length ?top \<le> nat ?k"
    using length_top_indices[OF k1, of np "similarities np rows q"] by simp
  also have "nat ?k = min (nat k) (VectorStore_count s)"
    using assms(1) by (auto simp: VectorStore_count_def min_def)
  finally show ?thesis
    using docs len by simp
qed

lemma query_sorted:
  assumes "embeddings s = Some (Array2 d rows)" and "metadata s \<noteq> []"
    and "is_argsort (similarities np rows q) (np_argsort np (similarities np rows q))"
  shows "sorted_wrt (\<lambda>i j. similarities np rows q ! j \<le> similarities np rows q ! i)
           (top_indices np (similarities np rows q) (min k (int (length (metadata s)))))"
  using assms(3) by (rule top_indices_sorted)

lemma query_zero_returns_all:
  assumes "embeddings s = Some (Array2 d rows)" and "metadata s \<noteq> []"
    and "is_argsort (similarities np rows q) (np_argsort np (similarities np rows q))"
    and "VectorStore_query np s q 0 = Inr r"
  shows "list_all (\<lambda>docs. length docs = length rows) (documents r)"
proof -
  have "min 0 (int (length (metadata s))) = 0"
    by simp
  with query_result[OF assms(1,2,4)]
  have "map (map Some) (documents r)
          = [map (\<lambda>i. map_of (metadata s ! i) ''document'')
               (rev (np_argsort np (similarities np rows q)))]"
    by (simp add: top_indices_zero)
  then obtain docs where "documents r = [docs]"
    and "length docs = length (np_argsort np (similarities np rows q))"
    by (cases "documents r") (auto dest: map_eq_imp_length_eq)
  then show ?thesis
    using is_argsort_length[OF assms(3)] by (simp add: similarities_def)
qed

text \<open>
  C1: for every \<open>k \<ge> 0\<close> a query returns at most \<open>min k (count)\<close> results. For \<open>k = 0\<close>
  the slice \<^verbatim>\<open>[-k:]\<close> is \<^verbatim>\<open>[0:]\<close>, the whole array: on the store of one record the query
  with \<open>k = 0\<close> returns that record, one result where the bound is zero.
\<close>

theorem query_k_zero_returns_a_record:
  "VectorStore_query exact_numpy cat_store [1, 0] 0
     = Inr \<lparr>documents = [[PyStr ''the cat sat'']],
            metadatas = [[[(''page_id'', PyStr ''A'')]]],
            distances = [[1 - 1 / (1 + 1 / 10 ^ 10)]]\<rparr>
   \<and> min (nat 0) (VectorStore_count cat_store) = 0"
  by (simp add: query_eval cat_store_def VectorStore_count_def)

section \<open>Ties\<close>

text \<open>
  C8 (as the specification states it): records of exactly equal similarity are returned
  in insertion order. With two records of the same vector and an argsort that keeps equal
  keys in index order, the reversal \<^verbatim>\<open>[::-1]\<close> returns the record inserted second before the
  record inserted first.
\<close>

theorem query_ties_second_before_first:
  "VectorStore_query exact_numpy twin_store [1, 0] 2
     = Inr \<lparr>documents = [[PyStr ''second'', PyStr ''first'']],
            metadatas = [[[], []]],
            distances = [[1 - 1 / (1 + 1 / 10 ^ 10), 1 - 1 / (1 + 1 / 10 ^ 10)]]\<rparr>"
  by (simp add: query_eval twin_store_def upt_2)

text \<open>
  C8 (amended): the code has no tie-break of its own; the order among records of equal
  similarity is the order \<^verbatim>\<open>np.argsort\<close> gives them, reversed. When the argsort is stable
  (equal keys in index order), two returned records of exactly equal similarity appear in
  reverse insertion order: of the results at positions \<open>a < b\<close>, the later one was inserted
  first. The returned documents, metadatas and distances are those of the selected indices,
  position by position.
\<close>

theorem query_ties_reverse_insertion_order:
  assumes "embeddings s = Some (Array2 d rows)" and "metadata s \<noteq> []"
    and "VectorStore_query np s q k = Inr r"
    and "is_stable (similarities np rows q) (np_argsort np (similarities np rows q))"
    and "idx = top_indices np (similarities np rows q) (min k (int (length (metadata s))))"
    and "a < b" and "b < length idx"
    and "similarities np rows q ! (idx ! a) = similarities np rows q ! (idx ! b)"
  shows "idx ! b < idx ! a
       \<and> map (map Some) (documents r) = [map (\<lambda>i. map_of (metadata s ! i) ''document'') idx]
       \<and> metadatas r = [map (\<lambda>i. without_document (metadata s ! i)) idx]
       \<and> distances r = [map (\<lambda>i. 1 - similarities np rows q ! i) idx]"
  using top_indices_ties[OF assms(4), of a b "min k (int (length (metadata s)))"]
    query_result[OF assms(1,2,3)] assms(5-8)
  by simp

theorem query_ties_reverse_insertion_order_witness:
  "embeddings twin_store = Some (Array2 2 [[1, 0], [1, 0]])
   \<and> metadata twin_store \<noteq> []
   \<and> is_stable (similarities exact_numpy [[1, 0], [1, 0]] [1, 0])
        (np_argsort exact_numpy (similarities exact_numpy [[1, 0], [1, 0]] [1, 0]))
   \<and> top_indices exact_numpy (similarities exact_numpy [[1, 0], [1, 0]] [1, 0])
        (min 2 (int (length (metadata twin_store)))) = [1, 0]
   \<and> similarities exact_numpy [[1, 0], [1, 0]] [1, 0] ! ([1, 0] ! 0)
      = similarities exact_numpy [[1, 0], [1, 0]] [1, 0] ! ([1, 0] ! 1)
   \<and> [1, 0 :: nat] ! 1 < [1, 0] ! 0"
proof -
  have e: "embeddings twin_store = Some (Array2 2 [[1, 0], [1, 0]])"
    and m: "metadata twin_store \<noteq> []"
    by (simp_all add: twin_store_def)
  have q: "VectorStore_query exact_numpy twin_store [1, 0] 2
     = Inr \<lparr>documents = [[PyStr ''second'', PyStr ''first'']],
            metadatas = [[[], []]],
            distances = [[1 - 1 / (1 + 1 / 10 ^ 10), 1 - 1 / (1 + 1 / 10 ^ 10)]]\<rparr>"
    by (simp add: query_eval twin_store_def upt_2)
  have st: "is_stable (similarities exact_numpy [[1, 0], [1, 0]] [1, 0])
        (np_argsort exact_numpy (similarities exact_numpy [[1, 0], [1, 0]] [1, 0]))"
    by (simp add: is_stable_def query_eval upt_2 upt_rec)
  have ti: "[1, 0] = top_indices exact_numpy (similarities exact_numpy [[1, 0], [1, 0]] [1, 0])
        (min 2 (int (length (metadata twin_store))))"
    by (simp add: query_eval twin_store_def upt_2)
  have eq: "similarities exact_numpy [[1, 0], [1, 0]] [1, 0] ! ([1, 0] ! 0)
      = similarities exact_numpy [[1, 0], [1, 0]] [1, 0] ! ([1, 0] ! 1)"
    by (simp add: query_eval)
  have "[1, 0 :: nat] ! 1 < [1, 0] ! 0"
    using query_ties_reverse_insertion_order [OF e m q st ti _ _ eq] by simp
  with e m st ti[symmetric] eq show ?thesis
    by (intro conjI)
qed

section \<open>The document key\<close>

lemma without_document_no_key: "map_of (without_document m) ''document'' = None"
  by (induction m) (auto simp: without_document_def)

lemma new_metadata_document:
  "i < length docs \<Longrightarrow> i < length metas \<Longrightarrow>
     map_of (new_metadata docs metas ! i) ''document'' = Some (PyStr (docs ! i))"
  by (simp add: new_metadata_def update_conv')

lemma query_metadatas_no_document:
  "VectorStore_query np s q k = Inr r \<Longrightarrow>
     list_all (list_all (\<lambda>m. map_of m ''document'' = None)) (metadatas r)"
  by (auto simp: VectorStore_query_def empty_result_def Let_def list_all_iff
      without_document_no_key split: option.splits if_splits ndarray.splits sum.splits)

text \<open>
  C10: whatever a metadata dict passed to \<^verbatim>\<open>add\<close> holds under the key \<^verbatim>\<open>document\<close>, the
  stored record holds the chunk's text under that key; and every metadata dict that
  \<^verbatim>\<open>get_all_metadata\<close> or \<^verbatim>\<open>query\<close> returns has no \<^verbatim>\<open>document\<close> key. So the caller's value is
  neither stored nor returned.
\<close>

theorem document_key_overwritten_and_stripped:
  assumes "VectorStore_add embs docs metas w = (Inr (), w')" and "store_inv (store w)"
    and "i < length docs" and "i < length metas"
  shows "map_of (metadata (store w') ! (length (metadata (store w)) + i)) ''document''
           = Some (PyStr (docs ! i))
       \<and> list_all (\<lambda>m. map_of m ''document'' = None) (VectorStore_get_all_metadata (store w'))
       \<and> (case VectorStore_query np (store w') q k of
            Inl e \<Rightarrow> True
          | Inr r \<Rightarrow> list_all (list_all (\<lambda>m. map_of m ''document'' = None)) (metadatas r))"
proof -
  have "metadata (store w') = metadata (store w) @ new_metadata docs metas"
    using assms(1,2) by (rule add_ok_metadata)
  then have "map_of (metadata (store w') ! (length (metadata (store w)) + i)) ''document''
           = Some (PyStr (docs ! i))"
    using assms(3,4) by (simp add: new_metadata_document)
  moreover have "list_all (\<lambda>m. map_of m ''document'' = None)
                   (VectorStore_get_all_metadata (store w'))"
    by (simp add: VectorStore_get_all_metadata_def list_all_iff without_document_no_key)
  moreover have "case VectorStore_query np (store w') q k of
            Inl e \<Rightarrow> True
          | Inr r \<Rightarrow> list_all (list_all (\<lambda>m. map_of m ''document'' = None)) (metadatas r)"
    by (auto split: sum.splits dest: query_metadatas_no_document)
  ultimately show ?thesis
    by blast
qed

theorem document_key_overwritten_and_stripped_witness:
  "VectorStore_add [[1, 0]] [''the cat sat'']
       [[(''document'', PyStr ''caller value''), (''page_id'', PyStr ''A'')]] empty_state
     = (Inr (),
        \<lparr>store = \<lparr>embeddings = Some (Array2 2 [[1, 0]]),
                  metadata = [[(''document'', PyStr ''the cat sat''), (''page_id'', PyStr ''A'')]]\<rparr>,
         files = \<lparr>embeddings_file = Some (Array2 2 [[1, 0]]),
                  metadata_file =
                    Some [[(''document'', PyStr ''the cat sat''), (''page_id'', PyStr ''A'')]]\<rparr>\<rparr>)
   \<and> store_inv (store empty_state)
   \<and> map_of ([[(''document'', PyStr ''the cat sat''), (''page_id'', PyStr ''A'')]] ! 0) ''document''
      = Some (PyStr ''the cat sat'')
   \<and> VectorStore_get_all_metadata
        \<lparr>embeddings = Some (Array2 2 [[1, 0 :: real]]),
         metadata = [[(''document'', PyStr ''the cat sat''), (''page_id'', PyStr ''A'')]]\<rparr>
      = [[(''page_id'', PyStr ''A'')]]
   \<and> VectorStore_query exact_numpy
        \<lparr>embeddings = Some (Array2 2 [[1, 0]]),
         metadata = [[(''document'', PyStr ''the cat sat''), (''page_id'', PyStr ''A'')]]\<rparr>
        [1, 0] 4
      = Inr \<lparr>documents = [[PyStr ''the cat sat'']],
             metadatas = [[[(''page_id'', PyStr ''A'')]]],
             distances = [[1 - 1 / (1 + 1 / 10 ^ 10)]]\<rparr>"
proof -
  have add: "VectorStore_add [[1, 0]] [''the cat sat'']
       [[(''document'', PyStr ''caller value''), (''page_id'', PyStr ''A'')]] empty_state
     = (Inr (),
        \<lparr>store = \<lparr>embeddings = Some (Array2 2 [[1, 0]]),
                  metadata = [[(''document'', PyStr ''the cat sat''), (''page_id'', PyStr ''A'')]]\<rparr>,
         files = \<lparr>embeddings_file = Some (Array2 2 [[1, 0]]),
                  metadata_file =
                    Some [[(''document'', PyStr ''the cat sat''), (''page_id'', PyStr ''A'')]]\<rparr>\<rparr>)"
    by (simp add: VectorStore_add_def np_array_def empty_state_def new_metadata_def
        VectorStore_save_def Let_def eval_nat_numeral)
  have inv: "store_inv (store empty_state)"
    by (simp add: store_inv_def empty_state_def)
  have stored: "map_of ([[(''document'', PyStr ''the cat sat''), (''page_id'', PyStr ''A'')]] ! 0)
        ''document'' = Some (PyStr ''the cat sat'')"
    using document_key_overwritten_and_stripped
      [OF add inv, of 0 exact_numpy "[1, 0]" 4, THEN conjunct1]
    by (simp add: empty_state_def)
  have listed: "VectorStore_get_all_metadata
        \<lparr>embeddings = Some (Array2 2 [[1, 0 :: real]]),
         metadata = [[(''document'', PyStr ''the cat sat''), (''page_id'', PyStr ''A'')]]\<rparr>
      = [[(''page_id'', PyStr ''A'')]]"
    by (simp add: VectorStore_get_all_metadata_def without_document_def)
  have queried: "VectorStore_query exact_numpy
        \<lparr>embeddings = Some (Array2 2 [[1, 0]]),
         metadata = [[(''document'', PyStr ''the cat sat''), (''page_id'', PyStr ''A'')]]\<rparr>
        [1, 0] 4
      = Inr \<lparr>documents = [[PyStr ''the cat sat'']],
             metadatas = [[[(''page_id'', PyStr ''A'')]]],
             distances = [[1 - 1 / (1 + 1 / 10 ^ 10)]]\<rparr>"
    by (simp add: query_eval)
  from add inv stored listed queried show ?thesis
    by (intro conjI)
qed

section \<open>The stable argsort\<close>

text \<open>The stable argsort meets the specification of an argsort.\<close>

lemma stable_argsort_is_argsort: "is_argsort xs (stable_argsort xs)"
proof -
  let ?zs = "zip xs [0..<length xs]"
  let ?ys = "sort_key fst ?zs"
  have snd_zs: "map snd ?zs = [0..<length xs]"
    by simp
  have "distinct (map snd ?zs)"
    by (simp only: snd_zs distinct_upt)
  then have "distinct ?zs" and "inj_on snd (set ?zs)"
    by (simp_all only: distinct_map)
  then have d: "distinct (map snd ?ys)"
    by (simp add: distinct_map)
  have "set (map snd ?ys) = set (map snd ?zs)"
    by (simp only: set_map set_sort)
  then have s: "set (map snd ?ys) = {0..<length xs}"
    by (simp only: snd_zs set_upt)
  have key: "xs ! snd z = fst z" if "z \<in> set ?ys" for z
  proof -
    from that have "z \<in> set ?zs"
      by simp
    then show ?thesis
      by (auto simp: set_zip)
  qed
  have eq: "map ((!) xs \<circ> snd) ?ys = map fst ?ys"
    by (rule map_cong[OF refl]) (simp only: comp_apply key)
  have o: "sorted (map (\<lambda>i. xs ! i) (map snd ?ys))"
    unfolding map_map eq by (rule sorted_sort_key)
  from d s o show ?thesis
    unfolding is_argsort_def stable_argsort_def by (intro conjI)
qed

end
